theory Spec2Isabelle
  imports Main "HOL-Library.Sublist" "HOL-Library.Word"
begin

section \<open>Strings of the Go standard library\<close>

text \<open>
  Go strings are byte sequences; they are modelled as \<^typ>\<open>string\<close>, one
  \<^typ>\<open>char\<close> per byte. Artifact contents read from an \<open>io.Reader\<close> are byte
  sequences of the same kind.
\<close>

type_synonym bytes = string

text \<open>
  \<open>strings.ReplaceAll(s, old, new)\<close>: the non-overlapping instances of \<open>old\<close>, found
  from the left, are replaced by \<open>new\<close>. The program calls it with the one-byte pattern
  \<open>"/"\<close>; for an empty pattern (where Go inserts \<open>new\<close> around every rune) the model
  leaves \<open>s\<close> as it is.
\<close>

function ReplaceAll :: "string \<Rightarrow> string \<Rightarrow> string \<Rightarrow> string" where
  "ReplaceAll [] old new = []"
| "ReplaceAll (c # cs) old new =
     (if old \<noteq> [] \<and> prefix old (c # cs)
      then new @ ReplaceAll (drop (length old) (c # cs)) old new
      else c # ReplaceAll cs old new)"
  by pat_completeness auto
termination
  by (relation "measure (\<lambda>(s, old, new). length s)") auto

text \<open>
  \<open>strings.Split(s, sep)\<close> for a non-empty separator: the substrings between the
  non-overlapping instances of \<open>sep\<close>, found from the left. An input without the
  separator gives the one-element list \<open>[s]\<close>.
\<close>

function Split :: "string \<Rightarrow> string \<Rightarrow> string list" where
  "Split [] sep = [[]]"
| "Split (c # cs) sep =
     (if sep \<noteq> [] \<and> prefix sep (c # cs)
      then [] # Split (drop (length sep) (c # cs)) sep
      else (case Split cs sep of
              [] \<Rightarrow> [[c]]
            | p # ps \<Rightarrow> (c # p) # ps))"
  by pat_completeness auto
termination
  by (relation "measure (\<lambda>(s, sep). length s)") auto

text \<open>\<open>strings.Contains(s, substr)\<close>.\<close>

fun Contains :: "string \<Rightarrow> string \<Rightarrow> bool" where
  "Contains [] substr = (substr = [])"
| "Contains (c # cs) substr = (prefix substr (c # cs) \<or> Contains cs substr)"

section \<open>Object keys of the storage client\<close>

text \<open>
  \<open>Client.buildObjectName\<close>: both parts are cleaned with
  \<open>strings.ReplaceAll(_, "/", "_")\<close> and formatted as
  \<open>packages/%s/%s/%s-%s.pkg\<close>.
\<close>

definition buildObjectName :: "string \<Rightarrow> string \<Rightarrow> string" where
  "buildObjectName packageName version =
     (let cleanPackageName = ReplaceAll packageName ''/'' ''_'';
          cleanVersion = ReplaceAll version ''/'' ''_''
      in ''packages/'' @ cleanPackageName @ ''/'' @ cleanVersion @ ''/''
           @ cleanPackageName @ ''-'' @ cleanVersion @ ''.pkg'')"

text \<open>
  \<open>Client.extractPackageInfoFromObjectName\<close>: the key is split at \<open>"/"\<close>; with at
  least four parts the second and third are returned, otherwise two empty strings.
\<close>

definition extractPackageInfoFromObjectName :: "string \<Rightarrow> string \<times> string" where
  "extractPackageInfoFromObjectName objectName =
     (let parts = Split objectName ''/''
      in if length parts \<ge> 4 then (parts ! 1, parts ! 2) else ([], []))"

text \<open>\<open>Client.extractVersionFromObjectName\<close>: the third part, when there is one.\<close>

definition extractVersionFromObjectName :: "string \<Rightarrow> string" where
  "extractVersionFromObjectName objectName =
     (let parts = Split objectName ''/''
      in if length parts \<ge> 3 then parts ! 2 else [])"

text \<open>
  The sanitisation in the specification's words: every path separator of the input
  becomes an underscore, every other byte stays.
\<close>

definition sanitize_spec :: "string \<Rightarrow> string" where
  "sanitize_spec s = map (\<lambda>c. if c = CHR ''/'' then CHR ''_'' else c) s"

section \<open>Pagination parameters in the HTTP layer\<close>

text \<open>
  Go's \<open>int\<close> is 64 bits wide on the build target (\<open>GOARCH=amd64\<close>); comparisons
  are signed. \<open>PackageHandler.GetPackageVersions\<close> receives what \<open>strconv.Atoi\<close>
  returned for the two query parameters (0 when the text is not a number) and passes
  the adjusted pair to the service.
\<close>

type_synonym go_int = "64 word"

definition GetPackageVersions_params :: "go_int \<Rightarrow> go_int \<Rightarrow> go_int \<times> go_int" where
  "GetPackageVersions_params page pageSize =
     (let page = (if page <s 1 then 1 else page);
          pageSize = (if pageSize <s 1 \<or> 100 <s pageSize then 20 else pageSize)
      in (page, pageSize))"

record SearchPackagesRequest =
  Query :: string
  sr_Author :: string
  sr_Keywords :: string
  sr_License :: string
  sr_IsPrivate :: "bool option"
  Page :: go_int
  PageSize :: go_int

text \<open>
  \<open>PackageHandler.SearchPackages\<close>: the bound request is adjusted in place before the
  service is called with it.
\<close>

definition SearchPackages_params :: "SearchPackagesRequest \<Rightarrow> SearchPackagesRequest" where
  "SearchPackages_params req =
     (let req = (if Page req <s 1 then req\<lparr>Page := 1\<rparr> else req);
          req = (if PageSize req <s 1 \<or> 100 <s PageSize req
                 then req\<lparr>PageSize := 20\<rparr> else req)
      in req)"

section \<open>Data model\<close>

text \<open>
  The GORM models of the registry. Identifiers are Go \<open>uint\<close> primary keys handed out
  by the auto-increment of each table; sizes and counters are \<open>int64\<close>. Both models
  with a \<open>gorm.DeletedAt\<close> column are soft-deleted: \<open>Delete\<close> sets the column and every
  query built by GORM skips the marked rows. Time stamps are left out.
\<close>

record Package =
  pkg_ID :: nat
  Name :: string
  Description :: string
  Author :: string
  Homepage :: string
  Repository :: string
  License :: string
  Keywords :: string
  IsPrivate :: bool
  OwnerID :: nat
  pkg_DeletedAt :: bool

record PackageVersion =
  ver_ID :: nat
  PackageID :: nat
  Version :: string
  ver_Description :: string
  Changelog :: string
  Dependencies :: string
  FileSize :: int
  FileHash :: string
  MinIOPath :: string
  DownloadCount :: int
  IsPrerelease :: bool
  UploaderID :: nat
  ver_DeletedAt :: bool

record PackageDownload =
  dl_ID :: nat
  PackageVersionID :: nat
  UserID :: "nat option"
  IPAddress :: string
  UserAgent :: string


text \<open>
  \<open>UpdatePackageRequest\<close>: the text fields are plain Go strings and the keywords a
  slice; only \<open>IsPrivate\<close> is a pointer (\<open>*bool\<close>), \<open>None\<close> standing for \<open>nil\<close>.
\<close>

record UpdatePackageRequest =
  up_Description :: string
  up_Author :: string
  up_Homepage :: string
  up_Repository :: string
  up_License :: string
  up_Keywords :: "string list"
  up_IsPrivate :: "bool option"

record CreatePackageVersionRequest =
  cv_Version :: string
  cv_Description :: string
  cv_Changelog :: string
  cv_Dependencies :: "(string \<times> string) list"
  cv_IsPrerelease :: bool

text \<open>The fields of the storage client's \<open>PackageInfo\<close> that the service reads.\<close>

record PackageInfo =
  pi_Name :: string
  pi_Version :: string
  pi_Size :: int

section \<open>State of the two stores\<close>

text \<open>
  What a call did to the outside world, in order: a \<open>PutObject\<close> that succeeded, a
  \<open>RemoveObject\<close> that was issued (whatever its outcome), the insert of a version row,
  and the begin, commit and rollback of a metadata transaction.
\<close>

datatype event =
    PutObject string
  | RemoveObject string
  | CreateVersion nat
  | Begin
  | Commit
  | Rollback

text \<open>
  The metadata tables (rows in primary-key order), their auto-increment counters, the
  bucket of the object store as a map from object name to content, and the log of
  events so far.
\<close>

record state =
  packages :: "Package list"
  versions :: "PackageVersion list"
  downloads :: "PackageDownload list"
  next_package_id :: nat
  next_version_id :: nat
  next_download_id :: nat
  objects :: "string \<rightharpoonup> bytes"
  log :: "event list"


text \<open>
  The behaviour of the collaborators during one call. The first four fields stand for
  library functions: \<open>fmt.Sprintf("%x", sha256.Sum(..))\<close>, \<open>json.Marshal\<close> on the keyword
  slice and on the dependency map, and the URL that \<open>PresignedGetObject\<close> signs for an
  object name. Every other field is the error, if any, that one database or storage call
  of the operation returns (a database error here is never \<open>gorm.ErrRecordNotFound\<close>,
  which the tables decide).
\<close>

record world =
  sha256_hex :: "bytes \<Rightarrow> string"
  marshal_keywords :: "string list \<Rightarrow> string"
  marshal_dependencies :: "(string \<times> string) list \<Rightarrow> string"
  presigned_url :: "string \<Rightarrow> string"
  db_first_err :: "string option"
  db_check_err :: "string option"
  db_create_err :: "string option"
  db_reload_err :: "string option"
  db_find_err :: "string option"
  db_update_err :: "string option"
  db_delete_downloads_err :: "string option"
  db_delete_versions_err :: "string option"
  db_delete_row_err :: "string option"
  db_commit_err :: "string option"
  db_record_err :: "string option"
  db_count_err :: "string option"
  put_err :: "string option"
  stat_err :: "string option"
  get_err :: "string option"
  remove_err :: "string \<Rightarrow> string option"
  presign_err :: "string option"

definition emit :: "event \<Rightarrow> state \<Rightarrow> state" where
  "emit e s = s\<lparr>log := log s @ [e]\<rparr>"

section \<open>Queries\<close>

text \<open>\<open>db.Where("name = ?", name).First(&pkg)\<close>: the first row that is not soft-deleted.\<close>

definition first_package :: "state \<Rightarrow> string \<Rightarrow> Package option" where
  "first_package s name =
     find (\<lambda>p. Name p = name \<and> \<not> pkg_DeletedAt p) (packages s)"

text \<open>\<open>db.Where("package_id = ? AND version = ?", id, version).First(&v)\<close>.\<close>

definition first_version :: "state \<Rightarrow> nat \<Rightarrow> string \<Rightarrow> PackageVersion option" where
  "first_version s pid version =
     find (\<lambda>v. PackageID v = pid \<and> Version v = version \<and> \<not> ver_DeletedAt v) (versions s)"

text \<open>The zero value of the \<open>Package\<close> struct, left in place when a preload finds no row.\<close>

definition zero_Package :: Package where
  "zero_Package = \<lparr>pkg_ID = 0, Name = [], Description = [], Author = [], Homepage = [],
     Repository = [], License = [], Keywords = [], IsPrivate = False, OwnerID = 0,
     pkg_DeletedAt = False\<rparr>"

text \<open>\<open>Preload("Package")\<close>: the package of a version row, soft-deleted rows skipped.\<close>

definition preload_Package :: "state \<Rightarrow> PackageVersion \<Rightarrow> Package" where
  "preload_Package s v =
     (case find (\<lambda>p. pkg_ID p = PackageID v \<and> \<not> pkg_DeletedAt p) (packages s) of
        None \<Rightarrow> zero_Package
      | Some p \<Rightarrow> p)"

text \<open>
  \<open>db.Preload("Package").Where("package_id = (SELECT id FROM packages WHERE name = ?)
  AND version = ?", name, version).First(&v)\<close>. The subquery is raw SQL: it sees
  soft-deleted packages too, gives NULL (no match) when no package has the name, and
  makes the statement fail when more than one has it.
\<close>

definition first_version_by_name ::
  "state \<Rightarrow> string \<Rightarrow> string \<Rightarrow> string + (PackageVersion \<times> Package) option" where
  "first_version_by_name s name version =
     (case filter (\<lambda>p. Name p = name) (packages s) of
        [] \<Rightarrow> Inr None
      | [p] \<Rightarrow> (case first_version s (pkg_ID p) version of
                  None \<Rightarrow> Inr None
                | Some v \<Rightarrow> Inr (Some (v, preload_Package s v)))
      | _ \<Rightarrow> Inl ''Error 1242 (21000): Subquery returns more than 1 row'')"

section \<open>Storage client\<close>

text \<open>
  \<open>Client.UploadPackage\<close>, with \<open>sz\<close> for its parameter \<open>size\<close>. \<open>PutObject\<close> reads
  the stream up to the announced size (all of it for a negative size) and stores what it read under the object name; a
  stream shorter than the announced size makes it fail. \<open>StatObject\<close> then reports the
  stored size. Besides the \<open>PackageInfo\<close> the model returns the bytes that were read
  from the stream, which is what a reader wrapped around the stream has seen.
\<close>

definition Client_UploadPackage ::
  "world \<Rightarrow> string \<Rightarrow> string \<Rightarrow> bytes \<Rightarrow> int \<Rightarrow> state
     \<Rightarrow> (string + PackageInfo \<times> bytes) \<times> state" where
  "Client_UploadPackage w packageName version reader sz s =
     (let objectName = buildObjectName packageName version;
          consumed = (if sz < 0 then reader else take (nat sz) reader)
      in case put_err w of
           Some m \<Rightarrow> (Inl (''failed to upload package: '' @ m), s)
         | None \<Rightarrow>
             if int (length consumed) < sz
             then (Inl (''failed to upload package: '' @ ''unexpected EOF''), s)
             else
               let s1 = emit (PutObject objectName)
                          (s\<lparr>objects := (objects s)(objectName \<mapsto> consumed)\<rparr>)
               in case stat_err w of
                    Some m \<Rightarrow> (Inl (''failed to get object info: '' @ m), s1)
                  | None \<Rightarrow>
                      (Inr (\<lparr>pi_Name = packageName, pi_Version = version,
                              pi_Size = int (length consumed)\<rparr>, consumed), s1))"

text \<open>
  \<open>Client.DownloadPackage\<close>: \<open>StatObject\<close> fails for a missing object, then \<open>GetObject\<close>
  opens the content.
\<close>

definition Client_DownloadPackage :: "world \<Rightarrow> string \<Rightarrow> string \<Rightarrow> state \<Rightarrow> string + bytes" where
  "Client_DownloadPackage w packageName version s =
     (let objectName = buildObjectName packageName version
      in case stat_err w of
           Some m \<Rightarrow> Inl (''package not found: '' @ m)
         | None \<Rightarrow>
             (case objects s objectName of
                None \<Rightarrow> Inl (''package not found: '' @ ''The specified key does not exist.'')
              | Some content \<Rightarrow>
                  (case get_err w of
                     Some m \<Rightarrow> Inl (''failed to download package: '' @ m)
                   | None \<Rightarrow> Inr content)))"

text \<open>
  \<open>Client.DeletePackage\<close>: one \<open>RemoveObject\<close> call; when it fails the object is left as
  it was.
\<close>

definition Client_DeletePackage ::
  "world \<Rightarrow> string \<Rightarrow> string \<Rightarrow> state \<Rightarrow> string option \<times> state" where
  "Client_DeletePackage w packageName version s =
     (let objectName = buildObjectName packageName version;
          s1 = emit (RemoveObject objectName) s
      in case remove_err w objectName of
           Some m \<Rightarrow> (Some (''failed to delete package: '' @ m), s1)
         | None \<Rightarrow> (None, s1\<lparr>objects := (objects s1)(objectName := None)\<rparr>))"


section \<open>Registry service\<close>

text \<open>
  Every operation takes the collaborators' behaviour and the state, and returns its Go
  result together with the state it leaves. An \<open>error\<close> is its message, because the HTTP
  layer tells the kinds of failure apart by the text.
\<close>


text \<open>
  The \<open>map[string]interface{}\<close> handed to \<open>Updates\<close>: column names with a string or a
  boolean value. The keys are distinct, so the order of the entries does not matter.
\<close>

datatype column_value = VString string | VBool bool

fun set_column :: "string \<times> column_value \<Rightarrow> Package \<Rightarrow> Package" where
  "set_column (col, VString x) p =
     (if col = ''description'' then p\<lparr>Description := x\<rparr>
      else if col = ''author'' then p\<lparr>Author := x\<rparr>
      else if col = ''homepage'' then p\<lparr>Homepage := x\<rparr>
      else if col = ''repository'' then p\<lparr>Repository := x\<rparr>
      else if col = ''license'' then p\<lparr>License := x\<rparr>
      else if col = ''keywords'' then p\<lparr>Keywords := x\<rparr>
      else p)"
| "set_column (col, VBool b) p =
     (if col = ''is_private'' then p\<lparr>IsPrivate := b\<rparr> else p)"

text \<open>\<open>Updates(updates)\<close> on one row: every column of the map is written.\<close>

definition Updates :: "(string \<times> column_value) list \<Rightarrow> Package \<Rightarrow> Package" where
  "Updates updates p = fold set_column updates p"

text \<open>The map built by \<open>UpdatePackage\<close>, one guarded assignment after the other.\<close>

definition package_updates :: "world \<Rightarrow> UpdatePackageRequest \<Rightarrow> (string \<times> column_value) list" where
  "package_updates w req =
     (if up_Description req \<noteq> [] then [(''description'', VString (up_Description req))] else [])
   @ (if up_Author req \<noteq> [] then [(''author'', VString (up_Author req))] else [])
   @ (if up_Homepage req \<noteq> [] then [(''homepage'', VString (up_Homepage req))] else [])
   @ (if up_Repository req \<noteq> [] then [(''repository'', VString (up_Repository req))] else [])
   @ (if up_License req \<noteq> [] then [(''license'', VString (up_License req))] else [])
   @ (case up_IsPrivate req of Some b \<Rightarrow> [(''is_private'', VBool b)] | None \<Rightarrow> [])
   @ (if length (up_Keywords req) > 0
      then [(''keywords'', VString (marshal_keywords w (up_Keywords req)))] else [])"

text \<open>
  \<open>PackageService.UpdatePackage\<close>. \<open>db.Model(&pkg).Updates(updates)\<close> writes the columns
  of the row with the package's primary key; the row is then read again.
\<close>

definition UpdatePackage ::
  "world \<Rightarrow> string \<Rightarrow> UpdatePackageRequest \<Rightarrow> nat \<Rightarrow> state \<Rightarrow> (string + Package) \<times> state" where
  "UpdatePackage w packageName req userID s =
     (case db_first_err w of
        Some m \<Rightarrow> (Inl (''failed to find package: '' @ m), s)
      | None \<Rightarrow>
     (case first_package s packageName of
        None \<Rightarrow> (Inl ''package not found'', s)
      | Some pkg \<Rightarrow>
          if OwnerID pkg \<noteq> userID then (Inl ''permission denied'', s)
          else
            let updates = package_updates w req
            in case (if length updates > 0 then db_update_err w else None) of
                 Some m \<Rightarrow> (Inl (''failed to update package: '' @ m), s)
               | None \<Rightarrow>
                 let s1 = (if length updates > 0
                           then s\<lparr>packages :=
                                  map (\<lambda>p. if pkg_ID p = pkg_ID pkg \<and> \<not> pkg_DeletedAt p
                                            then Updates updates p else p)
                                      (packages s)\<rparr>
                           else s)
                 in case db_reload_err w of
                      Some m \<Rightarrow> (Inl (''failed to reload package: '' @ m), s1)
                    | None \<Rightarrow>
                        (case find (\<lambda>p. pkg_ID p = pkg_ID pkg \<and> \<not> pkg_DeletedAt p)
                                (packages s1) of
                           None \<Rightarrow> (Inl (''failed to reload package: '' @ ''record not found''), s1)
                         | Some pkg' \<Rightarrow> (Inr pkg', s1))))"

text \<open>
  The loop of \<open>DeletePackage\<close> over the versions it loaded: one \<open>Client.DeletePackage\<close>
  per version, a failure only printed.
\<close>

fun delete_version_files :: "world \<Rightarrow> string \<Rightarrow> PackageVersion list \<Rightarrow> state \<Rightarrow> state" where
  "delete_version_files w packageName [] s = s"
| "delete_version_files w packageName (version # rest) s =
     delete_version_files w packageName rest
       (snd (Client_DeletePackage w packageName (Version version) s))"

text \<open>
  \<open>PackageService.DeletePackage\<close>. The statements issued on \<open>tx\<close> take effect on the
  tables when the commit succeeds and leave them untouched after a rollback or a failed
  commit. The delete of the download rows selects the versions by a raw subquery, which
  includes soft-deleted version rows.
\<close>

definition DeletePackage :: "world \<Rightarrow> string \<Rightarrow> nat \<Rightarrow> state \<Rightarrow> string option \<times> state" where
  "DeletePackage w packageName userID s =
     (case db_first_err w of
        Some m \<Rightarrow> (Some (''failed to find package: '' @ m), s)
      | None \<Rightarrow>
     (case first_package s packageName of
        None \<Rightarrow> (Some ''package not found'', s)
      | Some pkg \<Rightarrow>
          if OwnerID pkg \<noteq> userID then (Some ''permission denied'', s)
          else
            let tx = emit Begin s
            in case db_find_err w of
                 Some m \<Rightarrow> (Some (''failed to get package versions: '' @ m), emit Rollback tx)
               | None \<Rightarrow>
            let vs = filter (\<lambda>v. PackageID v = pkg_ID pkg \<and> \<not> ver_DeletedAt v) (versions s);
                tx = delete_version_files w packageName vs tx
            in case db_delete_downloads_err w of
                 Some m \<Rightarrow> (Some (''failed to delete download records: '' @ m), emit Rollback tx)
               | None \<Rightarrow>
            let ids = map ver_ID (filter (\<lambda>v. PackageID v = pkg_ID pkg) (versions s));
                downloads' = filter (\<lambda>d. PackageVersionID d \<notin> set ids) (downloads s)
            in case db_delete_versions_err w of
                 Some m \<Rightarrow> (Some (''failed to delete package versions: '' @ m), emit Rollback tx)
               | None \<Rightarrow>
            let versions' = map (\<lambda>v. if PackageID v = pkg_ID pkg \<and> \<not> ver_DeletedAt v
                                      then v\<lparr>ver_DeletedAt := True\<rparr> else v) (versions s)
            in case db_delete_row_err w of
                 Some m \<Rightarrow> (Some (''failed to delete package: '' @ m), emit Rollback tx)
               | None \<Rightarrow>
            let packages' = map (\<lambda>p. if pkg_ID p = pkg_ID pkg \<and> \<not> pkg_DeletedAt p
                                      then p\<lparr>pkg_DeletedAt := True\<rparr> else p) (packages s)
            in case db_commit_err w of
                 Some m \<Rightarrow> (Some m, tx)
               | None \<Rightarrow>
                   (None, emit Commit (tx\<lparr>packages := packages', versions := versions',
                                          downloads := downloads'\<rparr>))))"

text \<open>
  \<open>PackageService.UploadPackageVersion\<close>, with \<open>fileReader\<close> the content of the stream.
  The \<open>io.TeeReader\<close> feeds the hasher the bytes that the upload reads, so the recorded
  hash is the digest of the bytes returned as read by \<open>Client_UploadPackage\<close>.
\<close>

definition UploadPackageVersion ::
  "world \<Rightarrow> string \<Rightarrow> CreatePackageVersionRequest \<Rightarrow> bytes \<Rightarrow> int \<Rightarrow> nat \<Rightarrow> state
     \<Rightarrow> (string + PackageVersion) \<times> state" where
  "UploadPackageVersion w packageName req fileReader fileSize uploaderID s =
     (case db_first_err w of
        Some m \<Rightarrow> (Inl (''failed to find package: '' @ m), s)
      | None \<Rightarrow>
     (case first_package s packageName of
        None \<Rightarrow> (Inl ''package not found'', s)
      | Some pkg \<Rightarrow>
          if OwnerID pkg \<noteq> uploaderID then (Inl ''permission denied'', s)
          else
     (case db_check_err w of
        Some m \<Rightarrow> (Inl (''failed to check version existence: '' @ m), s)
      | None \<Rightarrow>
     (case first_version s (pkg_ID pkg) (cv_Version req) of
        Some existingVersion \<Rightarrow> (Inl ''version already exists'', s)
      | None \<Rightarrow>
     (case Client_UploadPackage w packageName (cv_Version req) fileReader fileSize s of
        (Inl err, s1) \<Rightarrow> (Inl (''failed to upload package to storage: '' @ err), s1)
      | (Inr (packageInfo, hashed), s1) \<Rightarrow>
          let dependenciesJSON = (if length (cv_Dependencies req) > 0
                                  then marshal_dependencies w (cv_Dependencies req) else []);
              version = \<lparr>ver_ID = next_version_id s1, PackageID = pkg_ID pkg,
                         Version = cv_Version req, ver_Description = cv_Description req,
                         Changelog = cv_Changelog req, Dependencies = dependenciesJSON,
                         FileSize = pi_Size packageInfo, FileHash = sha256_hex w hashed,
                         MinIOPath = ''packages/'' @ packageName @ ''/'' @ cv_Version req,
                         DownloadCount = 0, IsPrerelease = cv_IsPrerelease req,
                         UploaderID = uploaderID, ver_DeletedAt = False\<rparr>
          in case db_create_err w of
               Some m \<Rightarrow>
                 (Inl (''failed to create version record: '' @ m),
                  snd (Client_DeletePackage w packageName (cv_Version req) s1))
             | None \<Rightarrow>
                 let s2 = emit (CreateVersion (ver_ID version))
                            (s1\<lparr>versions := versions s1 @ [version],
                                next_version_id := Suc (next_version_id s1)\<rparr>)
                 in case db_reload_err w of
                      Some m \<Rightarrow> (Inl (''failed to load version with associations: '' @ m), s2)
                    | None \<Rightarrow> (Inr version, s2))))))"

text \<open>
  The body of the goroutine started by a download: one download row, then
  \<open>download_count + 1\<close> on the row with the version's primary key. Either statement may
  fail, which is only printed. The model runs the goroutine to its end within the call.
\<close>

definition record_download ::
  "world \<Rightarrow> PackageVersion \<Rightarrow> nat option \<Rightarrow> string \<Rightarrow> string \<Rightarrow> state \<Rightarrow> state" where
  "record_download w pkgVersion userID ipAddress userAgent s =
     (let downloadRecord = \<lparr>dl_ID = next_download_id s, PackageVersionID = ver_ID pkgVersion,
                             UserID = userID, IPAddress = ipAddress, UserAgent = userAgent\<rparr>;
          s1 = (case db_record_err w of
                  Some m \<Rightarrow> s
                | None \<Rightarrow> s\<lparr>downloads := downloads s @ [downloadRecord],
                             next_download_id := Suc (next_download_id s)\<rparr>)
      in case db_count_err w of
           Some m \<Rightarrow> s1
         | None \<Rightarrow>
             s1\<lparr>versions :=
                  map (\<lambda>v. if ver_ID v = ver_ID pkgVersion \<and> \<not> ver_DeletedAt v
                            then v\<lparr>DownloadCount := DownloadCount v + 1\<rparr> else v)
                      (versions s1)\<rparr>)"

text \<open>The check both download paths make after loading the version with its package.\<close>

definition access_denied :: "Package \<Rightarrow> nat option \<Rightarrow> bool" where
  "access_denied pkg userID =
     (IsPrivate pkg \<and> (case userID of None \<Rightarrow> True | Some u \<Rightarrow> OwnerID pkg \<noteq> u))"

text \<open>\<open>PackageService.DownloadPackageVersion\<close>; the reader it returns is the content.\<close>

definition DownloadPackageVersion ::
  "world \<Rightarrow> string \<Rightarrow> string \<Rightarrow> nat option \<Rightarrow> string \<Rightarrow> string \<Rightarrow> state
     \<Rightarrow> (string + bytes \<times> PackageVersion) \<times> state" where
  "DownloadPackageVersion w packageName version userID ipAddress userAgent s =
     (case db_first_err w of
        Some m \<Rightarrow> (Inl (''failed to find package version: '' @ m), s)
      | None \<Rightarrow>
     (case first_version_by_name s packageName version of
        Inl m \<Rightarrow> (Inl (''failed to find package version: '' @ m), s)
      | Inr None \<Rightarrow> (Inl ''package version not found'', s)
      | Inr (Some (pkgVersion, pkg)) \<Rightarrow>
          if access_denied pkg userID then (Inl ''access denied to private package'', s)
          else
            (case Client_DownloadPackage w packageName version s of
               Inl err \<Rightarrow> (Inl (''failed to download package from storage: '' @ err), s)
             | Inr reader \<Rightarrow>
                 (Inr (reader, pkgVersion),
                  record_download w pkgVersion userID ipAddress userAgent s))))"



section \<open>HTTP layer\<close>


definition UploadPackageVersion_status :: "string + PackageVersion \<Rightarrow> nat" where
  "UploadPackageVersion_status r =
     (case r of
        Inr pkgVersion \<Rightarrow> 200
      | Inl err \<Rightarrow>
          if Contains err ''not found'' then 404
          else if Contains err ''permission denied'' then 403
          else if Contains err ''already exists'' then 409
          else 500)"



section \<open>Sequences of calls\<close>




text \<open>A world in which no call fails; the digest and the encoders are stand-ins.\<close>

definition calm :: world where
  "calm = \<lparr>sha256_hex = rev, marshal_keywords = concat,
     marshal_dependencies = (\<lambda>deps. concat (map fst deps)),
     presigned_url = (\<lambda>objectName. ''https://minio/'' @ objectName),
     db_first_err = None, db_check_err = None, db_create_err = None,
     db_reload_err = None, db_find_err = None, db_update_err = None,
     db_delete_downloads_err = None, db_delete_versions_err = None,
     db_delete_row_err = None, db_commit_err = None, db_record_err = None,
     db_count_err = None, put_err = None, stat_err = None, get_err = None,
     remove_err = (\<lambda>objectName. None), presign_err = None\<rparr>"

section \<open>A small registry\<close>

text \<open>
  One private package of user 42 with one published version, used to run the operations
  on concrete data: before the upload of the version, and after it.
\<close>

definition demo_package :: Package where
  "demo_package = \<lparr>pkg_ID = 7, Name = ''left-pad'', Description = ''pads strings'',
     Author = ''alice'', Homepage = [], Repository = [], License = ''MIT'', Keywords = [],
     IsPrivate = True, OwnerID = 42, pkg_DeletedAt = False\<rparr>"

definition demo_upload :: CreatePackageVersionRequest where
  "demo_upload = \<lparr>cv_Version = ''1.0.0'', cv_Description = ''first'', cv_Changelog = [],
     cv_Dependencies = [], cv_IsPrerelease = False\<rparr>"

definition demo_version :: PackageVersion where
  "demo_version = \<lparr>ver_ID = 3, PackageID = 7, Version = ''1.0.0'',
     ver_Description = ''first'', Changelog = [], Dependencies = [], FileSize = 3,
     FileHash = ''cba'', MinIOPath = ''packages/left-pad/1.0.0'', DownloadCount = 0,
     IsPrerelease = False, UploaderID = 42, ver_DeletedAt = False\<rparr>"

definition demo_key :: string where
  "demo_key = ''packages/left-pad/1.0.0/left-pad-1.0.0.pkg''"

definition demo_empty :: state where
  "demo_empty = \<lparr>packages = [demo_package], versions = [], downloads = [],
     next_package_id = 8, next_version_id = 3, next_download_id = 5,
     objects = Map.empty, log = []\<rparr>"

definition demo_state :: state where
  "demo_state = \<lparr>packages = [demo_package], versions = [demo_version], downloads = [],
     next_package_id = 8, next_version_id = 4, next_download_id = 5,
     objects = [demo_key \<mapsto> ''abc''], log = [PutObject demo_key, CreateVersion 3]\<rparr>"



text \<open>
  Two update requests: one whose fields are all empty or absent, and one that sets the
  description and makes the package public.
\<close>

definition demo_clear :: UpdatePackageRequest where
  "demo_clear = \<lparr>up_Description = [], up_Author = [], up_Homepage = [], up_Repository = [],
     up_License = [], up_Keywords = [], up_IsPrivate = None\<rparr>"

definition demo_change :: UpdatePackageRequest where
  "demo_change = \<lparr>up_Description = ''left padding'', up_Author = [], up_Homepage = [],
     up_Repository = [], up_License = [], up_Keywords = [], up_IsPrivate = Some False\<rparr>"

text \<open>A world in which the delete of the download rows fails.\<close>

definition broken :: world where
  "broken = calm\<lparr>db_delete_downloads_err := Some ''connection lost''\<rparr>"

section \<open>Properties of states\<close>










section \<open>Properties of the object keys\<close>

lemma ReplaceAll_single:
  "ReplaceAll s [a] [b] = map (\<lambda>c. if c = a then b else c) s"
  by (induction s) auto

lemma Split_no_sep:
  "a \<notin> set s \<Longrightarrow> Split s [a] = [s]"
  by (induction s) auto

lemma Split_at_sep:
  "a \<notin> set s \<Longrightarrow> Split (s @ a # rest) [a] = s # Split rest [a]"
  by (induction s) auto

lemma sanitize_spec_no_slash:
  "CHR ''/'' \<notin> set (sanitize_spec s)"
  by (auto simp: sanitize_spec_def)

lemma ReplaceAll_slash:
  "ReplaceAll s ''/'' ''_'' = sanitize_spec s"
  by (simp add: ReplaceAll_single sanitize_spec_def)

lemma buildObjectName_layout:
  "buildObjectName n v =
     ''packages'' @ CHR ''/'' # sanitize_spec n @ CHR ''/'' # sanitize_spec v
       @ CHR ''/'' # (sanitize_spec n @ ''-'' @ sanitize_spec v @ ''.pkg'')"
  by (simp add: buildObjectName_def Let_def ReplaceAll_slash)

lemma Split_buildObjectName:
  "Split (buildObjectName n v) ''/'' =
     [''packages'', sanitize_spec n, sanitize_spec v,
      sanitize_spec n @ ''-'' @ sanitize_spec v @ ''.pkg'']"
proof -
  have tail: "CHR ''/'' \<notin> set (sanitize_spec n @ ''-'' @ sanitize_spec v @ ''.pkg'')"
    using sanitize_spec_no_slash by simp
  have head: "CHR ''/'' \<notin> set ''packages''"
    by simp
  show ?thesis
    unfolding buildObjectName_layout
    by (simp only: Split_at_sep [OF head] Split_at_sep [OF sanitize_spec_no_slash]
          Split_no_sep [OF tail])
qed

text \<open>
  C9. The key built for a package name and a version is exactly
  \<open>packages/<name'>/<version'>/<name'>-<version'>.pkg\<close>, where \<open>name'\<close> and
  \<open>version'\<close> are the inputs with every \<open>/\<close> replaced by \<open>_\<close>; and parsing that key by
  position gives back \<open>name'\<close> and \<open>version'\<close>.
\<close>

theorem buildObjectName_roundtrip:
  "buildObjectName n v =
     ''packages/'' @ sanitize_spec n @ ''/'' @ sanitize_spec v @ ''/''
       @ sanitize_spec n @ ''-'' @ sanitize_spec v @ ''.pkg''
   \<and> extractPackageInfoFromObjectName (buildObjectName n v)
       = (sanitize_spec n, sanitize_spec v)"
  by (simp add: extractPackageInfoFromObjectName_def Split_buildObjectName)
     (simp add: buildObjectName_layout)

section \<open>Properties of the pagination parameters\<close>

text \<open>
  C10. Whatever page and page size the request carries, the pair handed to the service
  by \<open>GetPackageVersions\<close> and the request handed to the service by \<open>SearchPackages\<close>
  have a page of at least 1 and a page size between 1 and 100; a page below 1 has
  become 1 and a page size outside 1..100 has become 20, other values are passed on.
\<close>

theorem pagination_clamped:
  "(case GetPackageVersions_params page pageSize of (p, ps) \<Rightarrow>
      1 \<le>s p \<and> 1 \<le>s ps \<and> ps \<le>s 100
      \<and> p = (if page <s 1 then 1 else page)
      \<and> ps = (if pageSize <s 1 \<or> 100 <s pageSize then 20 else pageSize))
   \<and> 1 \<le>s Page (SearchPackages_params req)
   \<and> 1 \<le>s PageSize (SearchPackages_params req)
   \<and> PageSize (SearchPackages_params req) \<le>s 100
   \<and> Page (SearchPackages_params req) = (if Page req <s 1 then 1 else Page req)
   \<and> PageSize (SearchPackages_params req)
       = (if PageSize req <s 1 \<or> 100 <s PageSize req then 20 else PageSize req)"
  by (auto simp: GetPackageVersions_params_def SearchPackages_params_def Let_def
        word_sless_alt word_sle_eq)

section \<open>Evaluation on the small registry\<close>

lemma demo_key_eq:
  "buildObjectName ''left-pad'' ''1.0.0'' = demo_key"
  by (simp add: buildObjectName_layout sanitize_spec_def demo_key_def)

lemma demo_first_package:
  "first_package demo_state ''left-pad'' = Some demo_package"
  "first_package demo_empty ''left-pad'' = Some demo_package"
  by (simp_all add: first_package_def demo_state_def demo_empty_def demo_package_def)

lemma demo_first_version:
  "first_version demo_state 7 ''1.0.0'' = Some demo_version"
  "first_version demo_empty 7 ''1.0.0'' = None"
  by (simp_all add: first_version_def demo_state_def demo_empty_def demo_version_def)

lemma demo_first_version_by_name:
  "first_version_by_name demo_state ''left-pad'' ''1.0.0'' = Inr (Some (demo_version, demo_package))"
proof -
  have "filter (\<lambda>p. Name p = ''left-pad'') (packages demo_state) = [demo_package]"
    by (simp add: demo_state_def demo_package_def)
  moreover have "pkg_ID demo_package = 7" "PackageID demo_version = 7"
    by (simp_all add: demo_package_def demo_version_def)
  moreover have "preload_Package demo_state demo_version = demo_package"
    by (simp add: preload_Package_def demo_state_def demo_package_def demo_version_def)
  ultimately show ?thesis
    by (simp add: first_version_by_name_def demo_first_version)
qed

lemma calm_simps:
  "sha256_hex calm = rev"
  "marshal_keywords calm = concat"
  "presigned_url calm objectName = ''https://minio/'' @ objectName"
  "db_first_err calm = None" "db_check_err calm = None" "db_create_err calm = None"
  "db_reload_err calm = None" "db_find_err calm = None" "db_update_err calm = None"
  "db_delete_downloads_err calm = None" "db_delete_versions_err calm = None"
  "db_delete_row_err calm = None" "db_commit_err calm = None" "db_record_err calm = None"
  "db_count_err calm = None" "put_err calm = None" "stat_err calm = None"
  "get_err calm = None" "remove_err calm objectName = None" "presign_err calm = None"
  by (simp_all add: calm_def)

lemma demo_upload_run:
  "UploadPackageVersion calm ''left-pad'' demo_upload ''abc'' 3 42 demo_empty
     = (Inr demo_version, demo_state)"
proof -
  have put: "Client_UploadPackage calm ''left-pad'' ''1.0.0'' ''abc'' 3 demo_empty
          = (Inr (\<lparr>pi_Name = ''left-pad'', pi_Version = ''1.0.0'', pi_Size = 3\<rparr>, ''abc''),
             demo_empty\<lparr>objects := [demo_key \<mapsto> ''abc''], log := [PutObject demo_key]\<rparr>)"
    by (simp add: Client_UploadPackage_def Let_def demo_key_eq calm_simps emit_def demo_empty_def)
  have pkg: "pkg_ID demo_package = 7" "OwnerID demo_package = 42"
    by (simp_all add: demo_package_def)
  have req: "cv_Version demo_upload = ''1.0.0''"
    by (simp add: demo_upload_def)
  show ?thesis
    by (simp add: UploadPackageVersion_def calm_simps demo_first_package demo_first_version
          pkg req put Let_def emit_def)
       (simp add: demo_upload_def demo_version_def demo_empty_def demo_state_def)
qed

lemma demo_download_run:
  "fst (DownloadPackageVersion calm ''left-pad'' ''1.0.0'' (Some 42) ip ua demo_state)
     = Inr (''abc'', demo_version)"
proof -
  have get: "Client_DownloadPackage calm ''left-pad'' ''1.0.0'' demo_state = Inr ''abc''"
    by (simp add: Client_DownloadPackage_def demo_key_eq calm_simps demo_state_def)
  have owner: "\<not> access_denied demo_package (Some 42)"
    by (simp add: access_denied_def demo_package_def)
  show ?thesis
    by (simp add: DownloadPackageVersion_def calm_simps demo_first_version_by_name get owner)
qed

section \<open>Publishing and retrieving a version\<close>

text \<open>The bytes \<open>PutObject\<close> reads from a stream for an announced size.\<close>

lemma UploadPackageVersion_InrD:
  assumes "UploadPackageVersion w name req reader sz uid s = (Inr version, s1)"
  shows "\<exists>pkg. first_package s name = Some pkg \<and> OwnerID pkg = uid
           \<and> first_version s (pkg_ID pkg) (cv_Version req) = None
           \<and> PackageID version = pkg_ID pkg \<and> Version version = cv_Version req
           \<and> \<not> ver_DeletedAt version
           \<and> FileHash version = sha256_hex w (if sz < 0 then reader else take (nat sz) reader)
           \<and> FileSize version = int (length (if sz < 0 then reader else take (nat sz) reader))
           \<and> versions s1 = versions s @ [version]
           \<and> packages s1 = packages s
           \<and> objects s1 = (objects s)(buildObjectName name (cv_Version req)
                 \<mapsto> (if sz < 0 then reader else take (nat sz) reader))"
  using assms
  by (auto simp: UploadPackageVersion_def Client_UploadPackage_def emit_def Let_def
       split: option.splits sum.splits if_splits prod.splits)

lemma first_package_SomeD:
  "first_package s name = Some pkg
     \<Longrightarrow> pkg \<in> set (packages s) \<and> Name pkg = name \<and> \<not> pkg_DeletedAt pkg"
  by (auto simp: first_package_def find_Some_iff)

lemma filter_singleton_mem:
  assumes "filter P xs = [p]" and "x \<in> set xs" and "P x"
  shows "x = p"
proof -
  have "x \<in> set (filter P xs)"
    using assms(2,3) by simp
  then show ?thesis
    by (simp add: assms(1))
qed

lemma find_append_new:
  "find P xs = None \<Longrightarrow> P x \<Longrightarrow> find P (xs @ [x]) = Some x"
  by (induction xs) (auto split: if_splits)

text \<open>
  C2. When an upload of a stream succeeds with the stream's length (or a negative size,
  which means "until the end") as its announced size, and a download of the same package
  name and version label from the state it left succeeds, then the download returns
  exactly the uploaded bytes together with the row the upload created, whose recorded
  size is the number of those bytes and whose recorded hash is the digest of those bytes
  (the digest of what the upload read from the stream).
\<close>

theorem upload_download_roundtrip:
  assumes up: "UploadPackageVersion w packageName req fileReader fileSize uploaderID s
                 = (Inr version, s1)"
    and announced: "fileSize < 0 \<or> fileSize = int (length fileReader)"
    and down: "DownloadPackageVersion w' packageName (cv_Version req) userID ip ua s1
                 = (Inr (content, pkgVersion), s2)"
  shows "content = fileReader \<and> pkgVersion = version
         \<and> FileSize pkgVersion = int (length content)
         \<and> FileHash pkgVersion = sha256_hex w content"
proof -
  have all: "(if fileSize < 0 then fileReader else take (nat fileSize) fileReader) = fileReader"
    using announced by auto
  from UploadPackageVersion_InrD [OF up] obtain pkg where
    pkg: "first_package s packageName = Some pkg"
    and fresh: "first_version s (pkg_ID pkg) (cv_Version req) = None"
    and row: "PackageID version = pkg_ID pkg" "Version version = cv_Version req"
             "\<not> ver_DeletedAt version"
    and hash: "FileHash version = sha256_hex w fileReader"
    and sz: "FileSize version = int (length fileReader)"
    and vs: "versions s1 = versions s @ [version]"
    and ps: "packages s1 = packages s"
    and obj: "objects s1 = (objects s)(buildObjectName packageName (cv_Version req)
                \<mapsto> fileReader)"
    unfolding all by blast
  have found: "first_version s1 (pkg_ID pkg) (cv_Version req) = Some version"
    using fresh row vs by (simp add: first_version_def find_append_new)
  from down obtain found_v found_p where
    look: "first_version_by_name s1 packageName (cv_Version req) = Inr (Some (found_v, found_p))"
    and res: "Client_DownloadPackage w' packageName (cv_Version req) s1 = Inr content"
             "pkgVersion = found_v"
    by (auto simp: DownloadPackageVersion_def split: option.splits sum.splits if_splits prod.splits)
  from look obtain p where p: "filter (\<lambda>p. Name p = packageName) (packages s1) = [p]"
    and fv: "first_version s1 (pkg_ID p) (cv_Version req) = Some found_v"
    by (auto simp: first_version_by_name_def split: list.splits option.splits)
  have "pkg = p"
    using filter_singleton_mem [OF p, of pkg] first_package_SomeD [OF pkg] ps by simp
  with fv found have same: "found_v = version" by simp
  have bytes: "content = fileReader"
    using res(1) obj
    by (auto simp: Client_DownloadPackage_def Let_def split: option.splits)
  show ?thesis
    using same res(2) bytes hash sz by simp
qed

theorem upload_download_roundtrip_witness:
  "UploadPackageVersion calm ''left-pad'' demo_upload ''abc'' 3 42 demo_empty
     = (Inr demo_version, demo_state)
   \<and> (3::int) = int (length ''abc'')
   \<and> fst (DownloadPackageVersion calm ''left-pad'' ''1.0.0'' (Some 42) ''10.0.0.7'' ''curl'' demo_state)
       = Inr (''abc'', demo_version)
   \<and> FileSize demo_version = int (length ''abc'')
   \<and> FileHash demo_version = sha256_hex calm ''abc''"
proof -
  have announced: "(3::int) < 0 \<or> (3::int) = int (length ''abc'')"
    by simp
  have down: "DownloadPackageVersion calm ''left-pad'' (cv_Version demo_upload) (Some 42)
                ''10.0.0.7'' ''curl'' demo_state
              = (Inr (''abc'', demo_version),
                 snd (DownloadPackageVersion calm ''left-pad'' ''1.0.0'' (Some 42)
                        ''10.0.0.7'' ''curl'' demo_state))"
    using demo_download_run [of "''10.0.0.7''" "''curl''"]
    by (simp add: demo_upload_def prod_eq_iff)
  from upload_download_roundtrip [OF demo_upload_run announced down]
  show ?thesis
    using demo_upload_run demo_download_run by simp
qed

section \<open>Access to private and public packages\<close>




section \<open>Publishing a version twice\<close>

text \<open>
  C4. When the package exists, the caller owns it and a version row with the requested
  label is already stored for it, \<open>UploadPackageVersion\<close> returns the error
  \<open>version already exists\<close>, which the HTTP layer answers with 409, and leaves the state
  as it was: the version rows (with their hashes and sizes) and the objects in the store
  are those from before the call, and nothing was written.
\<close>

theorem duplicate_version_conflict:
  assumes "db_first_err w = None" and "db_check_err w = None"
    and "first_package s packageName = Some pkg"
    and "OwnerID pkg = uploaderID"
    and "first_version s (pkg_ID pkg) (cv_Version req) = Some existing"
  shows "UploadPackageVersion w packageName req fileReader fileSize uploaderID s
           = (Inl ''version already exists'', s)
         \<and> UploadPackageVersion_status (Inl ''version already exists'') = 409"
  using assms by (simp add: UploadPackageVersion_def UploadPackageVersion_status_def)

theorem duplicate_version_conflict_witness:
  "db_first_err calm = None \<and> db_check_err calm = None
   \<and> first_package demo_state ''left-pad'' = Some demo_package
   \<and> OwnerID demo_package = 42
   \<and> first_version demo_state (pkg_ID demo_package) (cv_Version demo_upload) = Some demo_version
   \<and> UploadPackageVersion calm ''left-pad'' demo_upload ''xyz'' 3 42 demo_state
       = (Inl ''version already exists'', demo_state)"
proof -
  have calm: "db_first_err calm = None" "db_check_err calm = None"
    by (simp_all add: calm_def)
  have owner: "OwnerID demo_package = 42"
    by (simp add: demo_package_def)
  have existing: "first_version demo_state (pkg_ID demo_package) (cv_Version demo_upload)
                    = Some demo_version"
    using demo_first_version(1) by (simp add: demo_package_def demo_upload_def)
  from duplicate_version_conflict [OF calm demo_first_package(1) owner existing]
  show ?thesis
    using calm owner existing demo_first_package(1) by simp
qed

section \<open>Inserts that fail\<close>










section \<open>Updating a package\<close>

lemma find_map_same:
  "(\<And>x. P (g x) = P x) \<Longrightarrow> find P (map g xs) = map_option g (find P xs)"
  by (induction xs) auto

lemma find_by_key:
  assumes "distinct (map k xs)" and "x \<in> set xs" and "P x" and "\<forall>y. P y \<longrightarrow> k y = k x"
  shows "find P xs = Some x"
  using assms(1,2)
proof (induction xs)
  case Nil
  then show ?case by simp
next
  case (Cons a xs)
  show ?case
  proof (cases "a = x")
    case True
    then show ?thesis using assms(3) by simp
  next
    case False
    with Cons.prems have mem: "x \<in> set xs" by simp
    then have "k x \<in> set (map k xs)" by simp
    with Cons.prems(1) have "k a \<noteq> k x" by auto
    with assms(4) have "\<not> P a" by blast
    moreover have "find P xs = Some x"
      using Cons.IH Cons.prems(1) mem by simp
    ultimately show ?thesis by simp
  qed
qed

lemma Updates_fields:
  "pkg_ID (Updates (package_updates w req) p) = pkg_ID p"
  "Name (Updates (package_updates w req) p) = Name p"
  "OwnerID (Updates (package_updates w req) p) = OwnerID p"
  "pkg_DeletedAt (Updates (package_updates w req) p) = pkg_DeletedAt p"
  "Description (Updates (package_updates w req) p)
     = (if up_Description req \<noteq> [] then up_Description req else Description p)"
  "Author (Updates (package_updates w req) p)
     = (if up_Author req \<noteq> [] then up_Author req else Author p)"
  "Homepage (Updates (package_updates w req) p)
     = (if up_Homepage req \<noteq> [] then up_Homepage req else Homepage p)"
  "Repository (Updates (package_updates w req) p)
     = (if up_Repository req \<noteq> [] then up_Repository req else Repository p)"
  "License (Updates (package_updates w req) p)
     = (if up_License req \<noteq> [] then up_License req else License p)"
  "IsPrivate (Updates (package_updates w req) p)
     = (case up_IsPrivate req of None \<Rightarrow> IsPrivate p | Some b \<Rightarrow> b)"
  "Keywords (Updates (package_updates w req) p)
     = (if up_Keywords req \<noteq> [] then marshal_keywords w (up_Keywords req) else Keywords p)"
  by (simp_all add: Updates_def package_updates_def split: option.splits)

lemma UpdatePackage_result:
  assumes ok: "db_first_err w = None" "db_update_err w = None" "db_reload_err w = None"
    and pkg: "first_package s packageName = Some pkg"
    and owner: "OwnerID pkg = userID"
    and key: "distinct (map pkg_ID (packages s))"
  shows "UpdatePackage w packageName req userID s
           = (Inr (Updates (package_updates w req) pkg),
              s\<lparr>packages := map (\<lambda>p. if pkg_ID p = pkg_ID pkg
                                       then Updates (package_updates w req) pkg else p)
                                (packages s)\<rparr>)"
proof -
  let ?Q = "\<lambda>p. pkg_ID p = pkg_ID pkg \<and> \<not> pkg_DeletedAt p"
  let ?u = "Updates (package_updates w req)"
  let ?g = "\<lambda>p. if ?Q p then ?u p else p"
  let ?h = "\<lambda>p. if pkg_ID p = pkg_ID pkg then ?u pkg else p"
  from first_package_SomeD [OF pkg] have mem: "pkg \<in> set (packages s)"
    and live: "\<not> pkg_DeletedAt pkg" by simp_all
  have only: "p = pkg" if "p \<in> set (packages s)" and "pkg_ID p = pkg_ID pkg" for p
    using that mem key by (meson distinct_map inj_onD)
  have same: "map ?g (packages s) = map ?h (packages s)"
    by (rule map_cong) (auto simp: live dest: only)
  have found: "find ?Q (packages s) = Some pkg"
    by (rule find_by_key [where k = pkg_ID]) (simp_all add: key mem live)
  have "find ?Q (map ?g (packages s)) = map_option ?g (find ?Q (packages s))"
    by (rule find_map_same) (simp add: Updates_fields)
  then have reload: "find ?Q (map ?h (packages s)) = Some (?u pkg)"
    unfolding same found by (simp add: live)
  show ?thesis
  proof (cases "package_updates w req = []")
    case True
    have same_row: "?u pkg = pkg"
      by (simp add: Updates_def True)
    have idmap: "map (\<lambda>p. if pkg_ID p = pkg_ID pkg then pkg else p) (packages s) = packages s"
      by (rule map_idI) (auto dest: only)
    show ?thesis
      unfolding same_row idmap
      using ok pkg owner True found by (simp add: UpdatePackage_def)
  next
    case False
    show ?thesis
      using ok pkg owner False
      by (simp add: UpdatePackage_def Let_def same reload)
  qed
qed

text \<open>
  C8 (as the code has it). For an existing package updated by its owner, with the
  database answering every statement and the primary keys of the packages distinct:
  the call returns the stored row, which replaces the old one while every other row stays;
  identifier, name, owner and deletion mark are unchanged; a text field of the request
  that is empty leaves the stored text and a non-empty one replaces it; an empty keyword
  list leaves the stored keywords and a non-empty one replaces them by its encoding; an
  absent \<open>is_private\<close> leaves the stored flag and a present one, false included, replaces
  it.
\<close>

theorem update_package_partial:
  assumes "db_first_err w = None" and "db_update_err w = None" and "db_reload_err w = None"
    and "first_package s packageName = Some pkg"
    and "OwnerID pkg = userID"
    and "distinct (map pkg_ID (packages s))"
  shows "\<exists>pkg'.
           UpdatePackage w packageName req userID s
             = (Inr pkg', s\<lparr>packages := map (\<lambda>p. if pkg_ID p = pkg_ID pkg then pkg' else p)
                                              (packages s)\<rparr>)
         \<and> pkg_ID pkg' = pkg_ID pkg \<and> Name pkg' = Name pkg \<and> OwnerID pkg' = OwnerID pkg
         \<and> pkg_DeletedAt pkg' = pkg_DeletedAt pkg
         \<and> Description pkg'
             = (if up_Description req \<noteq> [] then up_Description req else Description pkg)
         \<and> Author pkg' = (if up_Author req \<noteq> [] then up_Author req else Author pkg)
         \<and> Homepage pkg' = (if up_Homepage req \<noteq> [] then up_Homepage req else Homepage pkg)
         \<and> Repository pkg'
             = (if up_Repository req \<noteq> [] then up_Repository req else Repository pkg)
         \<and> License pkg' = (if up_License req \<noteq> [] then up_License req else License pkg)
         \<and> Keywords pkg'
             = (if up_Keywords req \<noteq> [] then marshal_keywords w (up_Keywords req)
                else Keywords pkg)
         \<and> IsPrivate pkg' = (case up_IsPrivate req of None \<Rightarrow> IsPrivate pkg | Some b \<Rightarrow> b)"
  by (rule exI [where x = "Updates (package_updates w req) pkg"])
     (simp only: UpdatePackage_result [OF assms] Updates_fields simp_thms)

theorem update_package_partial_witness:
  "db_first_err calm = None \<and> db_update_err calm = None \<and> db_reload_err calm = None
   \<and> first_package demo_state ''left-pad'' = Some demo_package
   \<and> OwnerID demo_package = 42
   \<and> distinct (map pkg_ID (packages demo_state))
   \<and> up_Author demo_change = [] \<and> up_IsPrivate demo_change = Some False
   \<and> IsPrivate demo_package
   \<and> (\<exists>pkg'. fst (UpdatePackage calm ''left-pad'' demo_change 42 demo_state) = Inr pkg'
          \<and> Name pkg' = ''left-pad'' \<and> Description pkg' = ''left padding''
          \<and> Author pkg' = ''alice'' \<and> IsPrivate pkg' = False)"
proof -
  have owner: "OwnerID demo_package = 42"
    by (simp add: demo_package_def)
  have key: "distinct (map pkg_ID (packages demo_state))"
    by (simp add: demo_state_def)
  from update_package_partial [OF calm_simps(4) calm_simps(9) calm_simps(7)
      demo_first_package(1) owner key, of demo_change]
  obtain pkg' where
    "UpdatePackage calm ''left-pad'' demo_change 42 demo_state
       = (Inr pkg', demo_state\<lparr>packages :=
            map (\<lambda>p. if pkg_ID p = pkg_ID demo_package then pkg' else p) (packages demo_state)\<rparr>)"
    and "Name pkg' = Name demo_package"
    and "Description pkg'
           = (if up_Description demo_change \<noteq> [] then up_Description demo_change
              else Description demo_package)"
    and "Author pkg' = (if up_Author demo_change \<noteq> [] then up_Author demo_change
                        else Author demo_package)"
    and "IsPrivate pkg' = (case up_IsPrivate demo_change of None \<Rightarrow> IsPrivate demo_package
                           | Some b \<Rightarrow> b)"
    by blast
  then have "fst (UpdatePackage calm ''left-pad'' demo_change 42 demo_state) = Inr pkg'
      \<and> Name pkg' = ''left-pad'' \<and> Description pkg' = ''left padding''
      \<and> Author pkg' = ''alice'' \<and> IsPrivate pkg' = False"
    by (simp add: demo_change_def demo_package_def)
  then show ?thesis
    using owner key demo_first_package(1)
    by (auto simp: calm_simps demo_change_def demo_package_def)
qed

text \<open>
  C8 as stated fails for the text fields: a request whose description is the empty
  string leaves the stored description, exactly as a request without one does, so an
  explicit empty value is not applied.
\<close>

theorem update_explicit_empty_counterexample:
  "up_Description demo_clear = []
   \<and> Description demo_package = ''pads strings''
   \<and> UpdatePackage calm ''left-pad'' demo_clear 42 demo_state = (Inr demo_package, demo_state)"
proof -
  have none: "package_updates calm demo_clear = []"
    by (simp add: package_updates_def demo_clear_def)
  have found: "find (\<lambda>p. pkg_ID p = pkg_ID demo_package \<and> \<not> pkg_DeletedAt p)
                 (packages demo_state) = Some demo_package"
    by (simp add: demo_state_def demo_package_def)
  have "OwnerID demo_package = 42"
    by (simp add: demo_package_def)
  then have "UpdatePackage calm ''left-pad'' demo_clear 42 demo_state
               = (Inr demo_package, demo_state)"
    by (simp add: UpdatePackage_def calm_simps demo_first_package none found)
  then show ?thesis
    by (simp add: demo_clear_def demo_package_def)
qed

section \<open>Deleting a package\<close>

lemma broken_simps:
  "db_first_err broken = None" "db_find_err broken = None"
  "db_delete_downloads_err broken = Some ''connection lost''"
  "remove_err broken objectName = None"
  by (simp_all add: broken_def calm_def)

lemma demo_live_versions:
  "filter (\<lambda>v. PackageID v = pkg_ID demo_package \<and> \<not> ver_DeletedAt v) (versions demo_state)
     = [demo_version]"
  "filter (\<lambda>v. PackageID v = pkg_ID demo_package) (versions demo_state) = [demo_version]"
  "Version demo_version = ''1.0.0''" "OwnerID demo_package = 42"
  by (simp_all add: demo_state_def demo_version_def demo_package_def)

text \<open>
  C6, on the code. \<open>DeletePackage\<close> removes the objects of the versions inside the open
  transaction, before any row is deleted. On the small registry, when the delete of the
  download rows fails, the call returns that error and rolls back: the package row and
  the version row are still there and not marked deleted, but the version's object is
  gone from the store. When nothing fails, the log shows the removal of the object
  before the commit.
\<close>

theorem delete_package_removes_objects_before_commit:
  "fst (DeletePackage broken ''left-pad'' 42 demo_state)
     = Some ''failed to delete download records: connection lost''
   \<and> versions (snd (DeletePackage broken ''left-pad'' 42 demo_state)) = [demo_version]
   \<and> ver_DeletedAt demo_version = False
   \<and> packages (snd (DeletePackage broken ''left-pad'' 42 demo_state)) = [demo_package]
   \<and> objects demo_state demo_key = Some ''abc''
   \<and> objects (snd (DeletePackage broken ''left-pad'' 42 demo_state)) demo_key = None
   \<and> log (snd (DeletePackage broken ''left-pad'' 42 demo_state))
       = [PutObject demo_key, CreateVersion 3, Begin, RemoveObject demo_key, Rollback]
   \<and> fst (DeletePackage calm ''left-pad'' 42 demo_state) = None
   \<and> log (snd (DeletePackage calm ''left-pad'' 42 demo_state))
       = [PutObject demo_key, CreateVersion 3, Begin, RemoveObject demo_key, Commit]"
  by (simp add: DeletePackage_def Let_def broken_simps calm_simps demo_first_package
        demo_live_versions Client_DeletePackage_def demo_key_eq emit_def)
     (simp add: demo_state_def demo_version_def)

section \<open>What each call changes\<close>





















section \<open>Objects are stored before their rows\<close>


















section \<open>Version rows after their creation\<close>













end
